theory Spec2Isabelle
  imports Complex_Main
begin

section \<open>Conventions of the embedding\<close>

text \<open>
  The four tools of FlightLab compute with Python floats. A float is modelled as a
  \<^typ>\<open>real\<close>: comparisons, branches and the order of the operations are those of
  the source, while rounding and the overflow of the IEEE double range are not part of
  the model. A float literal is the real it denotes (\<open>1e-9\<close> is \<open>1 / 10 ^ 9\<close>).
  A KV rating is a Python \<open>int\<close>, modelled as \<^typ>\<open>int\<close>.

  A raised exception is the \<open>Inl\<close> of a sum; the value returned is its \<open>Inr\<close>.
  A method of a window class takes the fields it reads and returns the fields it writes;
  the leading underscore of a private method is dropped (\<open>_on_tick\<close> is \<open>on_tick\<close>).
\<close>

datatype py_error = ZeroDivisionError | ValueError string

text \<open>Python's float division raises on a zero divisor.\<close>

definition py_div :: "real \<Rightarrow> real \<Rightarrow> py_error + real" where
  "py_div a b = (if b = 0 then Inl ZeroDivisionError else Inr (a / b))"


section \<open>calculate_power_system_ui.py: the domain logic\<close>

definition battery_voltage_from_wingspan_cm :: "real \<Rightarrow> real" where
  "battery_voltage_from_wingspan_cm cm =
     (if cm < 100 then 11.1
      else if cm < 140 then 14.8
      else if cm < 175 then 22.2
      else if cm < 215 then 29.6
      else if cm < 245 then 37.0
      else 44.4)"

section \<open>flight_time_ui.py: the domain logic and the calculate action\<close>

text \<open>
  \<open>calculate_flight_time\<close> returns the flight time in minutes. The divisor is
  \<open>max(avg_current_A, 1e-9)\<close>; the division is the fallible \<^const>\<open>py_div\<close>, so that
  a zero divisor would show as \<^const>\<open>ZeroDivisionError\<close>.
\<close>

definition calculate_flight_time :: "real \<Rightarrow> real \<Rightarrow> bool \<Rightarrow> py_error + real" where
  "calculate_flight_time capacity_mAh avg_current_A use_80_percent =
     (let capacity_Ah = capacity_mAh / 1000;
          capacity_Ah = (if use_80_percent then capacity_Ah * 0.8 else capacity_Ah)
      in case py_div capacity_Ah (max avg_current_A (1 / 10 ^ 9)) of
           Inl e \<Rightarrow> Inl e
         | Inr q \<Rightarrow> Inr (q * 60))"



text \<open>
  The text of a \<open>QLineEdit\<close>, as the helper \<open>_f\<close> tells it apart: empty after
  \<open>strip()\<close>, rejected by \<open>float()\<close>, or the number \<open>float()\<close> returns.
  \<open>f_field\<close> is \<open>_f\<close>; it is the same method in every window.
\<close>

datatype line_edit = Blank | NotANumber | Number real

definition f_field :: "line_edit \<Rightarrow> string \<Rightarrow> py_error + real" where
  "f_field widget label =
     (case widget of
        Blank \<Rightarrow> Inl (ValueError (label @ '' is required.''))
      | NotANumber \<Rightarrow> Inl (ValueError (label @ '' must be a number.''))
      | Number val \<Rightarrow>
          if val < 0 then Inl (ValueError (label @ '' must be non-negative.''))
          else Inr val)"

text \<open>
  \<open>FlightTimeEstimator._on_calculate\<close>. \<open>Inl\<close> is the exception that the handler
  reports in a message box, leaving the table as it was; \<open>Inr\<close> carries the four
  values of the rows it writes (capacity, current, the 80% rule, the flight time).
\<close>

definition on_calculate :: "line_edit \<Rightarrow> line_edit \<Rightarrow> bool \<Rightarrow> py_error + (real \<times> real \<times> bool \<times> real)" where
  "on_calculate capacity_mAh avg_current_A use_80 =
     (case f_field capacity_mAh ''Capacity (mAh)'' of
        Inl e \<Rightarrow> Inl e
      | Inr cap \<Rightarrow>
          (case f_field avg_current_A ''Avg current (A)'' of
             Inl e \<Rightarrow> Inl e
           | Inr cur \<Rightarrow>
               if cur \<le> 0 then Inl (ValueError ''Avg current (A) must be > 0.'')
               else (case calculate_flight_time cap cur use_80 of
                       Inl e \<Rightarrow> Inl e
                     | Inr ft_min \<Rightarrow> Inr (cap, cur, use_80, ft_min))))"

section \<open>calculate_params_ui.py: the motor and ESC table\<close>







section \<open>flight_measure_ui.py: the battery monitor simulator\<close>

text \<open>
  \<open>BatterySimWindow\<close> holds the state of the simulation in its attributes. The
  record below has the attributes that the four handlers read or write, and of the
  widgets what the handlers set: the timer, the rows of the table, the message of the
  status bar, the five status labels and which controls are enabled.

  The rows of the table are the sample log: \<open>_append_row\<close> is the only place a
  sample is stored, and the CSV export reads the table. The list \<open>records\<close> is
  created empty and cleared, and no handler appends to it.

  \<open>_append_row\<close> prints the five values of a row with a fixed number of decimals;
  the model keeps the values. The estimate is printed as \<open>--\<close> from 9999 on.
\<close>

record sample_row =
  row_t :: real
  row_i :: real
  row_used :: real
  row_rem :: real
  row_eta :: real

datatype cell = Dashes | Decimal real

definition eta_cell :: "real \<Rightarrow> cell" where
  "eta_cell eta = (if eta \<ge> 9999 then Dashes else Decimal eta)"

record sim_window =
  running :: bool
  timer_active :: bool
  timer_interval_ms :: int
  start_time :: real
  last_time :: real
  total_elapsed_s :: real
  consumed_mAh :: real
  effective_capacity_mAh :: real
  sampling_interval_s :: real
  sim_duration_s :: real
  i_min :: real
  i_max :: real
  records :: "(real \<times> real \<times> real \<times> real \<times> real) list"
  table :: "sample_row list"
  status_message :: string
  status_labels :: "sample_row option"
  start_btn_enabled :: bool
  pause_btn_enabled :: bool
  inputs_enabled :: bool

text \<open>
  The window as \<open>__init__\<close> leaves it. \<open>sampling_interval_s\<close>, \<open>sim_duration_s\<close>,
  \<open>i_min\<close> and \<open>i_max\<close> are created by the first \<open>_on_start\<close> and read by
  \<open>_on_tick\<close> only, which the timer calls after a start: the zeros given to them
  here are never read. The status labels show their initial texts (\<open>None\<close>).
\<close>

definition init_window :: sim_window where
  "init_window =
     \<lparr>running = False, timer_active = False, timer_interval_ms = 0,
      start_time = 0, last_time = 0, total_elapsed_s = 0, consumed_mAh = 0,
      effective_capacity_mAh = 0, sampling_interval_s = 0, sim_duration_s = 0,
      i_min = 0, i_max = 0, records = [], table = [], status_message = [],
      status_labels = None, start_btn_enabled = True, pause_btn_enabled = False,
      inputs_enabled = True\<rparr>"

text \<open>The form of the window: the five line edits and the check box of the 80% rule.\<close>

record sim_form =
  capacity_mAh_edit :: line_edit
  sampling_s_edit :: line_edit
  duration_s_edit :: line_edit
  i_min_a_edit :: line_edit
  i_max_a_edit :: line_edit
  use_80_box :: bool

text \<open>Python's \<open>int\<close> of a float truncates towards zero.\<close>

definition py_int :: "real \<Rightarrow> int" where
  "py_int x = (if 0 \<le> x then \<lfloor>x\<rfloor> else \<lceil>x\<rceil>)"

text \<open>
  \<open>random.uniform(a, b)\<close> is \<open>a + (b - a) * random()\<close>; the argument \<open>u\<close> is the
  value of \<open>random()\<close>, a number of the interval from 0 (included) to 1 (excluded).
\<close>

definition uniform :: "real \<Rightarrow> real \<Rightarrow> real \<Rightarrow> real" where
  "uniform a b u = a + (b - a) * u"

text \<open>The \<open>try\<close> block of \<open>_on_start\<close>: the five fields are read in this order.\<close>

definition read_form :: "sim_form \<Rightarrow> py_error + (real \<times> real \<times> real \<times> real \<times> real)" where
  "read_form form =
     (case f_field (capacity_mAh_edit form) ''Capacity (mAh)'' of
        Inl e \<Rightarrow> Inl e
      | Inr cap \<Rightarrow>
     (case f_field (sampling_s_edit form) ''Sampling (s)'' of
        Inl e \<Rightarrow> Inl e
      | Inr samp \<Rightarrow>
     (case f_field (duration_s_edit form) ''Duration (s)'' of
        Inl e \<Rightarrow> Inl e
      | Inr dur \<Rightarrow>
     (case f_field (i_min_a_edit form) ''Current min (A)'' of
        Inl e \<Rightarrow> Inl e
      | Inr imin \<Rightarrow>
     (case f_field (i_max_a_edit form) ''Current max (A)'' of
        Inl e \<Rightarrow> Inl e
      | Inr imax \<Rightarrow>
          if imax < imin
          then Inl (ValueError ''Current max (A) must be >= Current min (A).'')
          else Inr (cap, samp, dur, imin, imax))))))"

text \<open>
  \<open>_on_start\<close>, at the time \<open>now\<close> of \<open>time.time()\<close>. A \<open>ValueError\<close> of the
  \<open>try\<close> block is shown in a message box and the handler returns: the second
  component is the error reported, the first the window, which is then as it was.
\<close>

definition on_start :: "sim_form \<Rightarrow> real \<Rightarrow> sim_window \<Rightarrow> sim_window \<times> py_error option" where
  "on_start form now s =
     (case read_form form of
        Inl e \<Rightarrow> (s, Some e)
      | Inr (cap, samp, dur, imin, imax) \<Rightarrow>
          let s1 = s\<lparr>effective_capacity_mAh := cap * (if use_80_box form then 0.8 else 1.0),
                     sampling_interval_s := samp,
                     sim_duration_s := dur,
                     i_min := imin,
                     i_max := imax\<rparr>;
              s2 = (if \<not> running s1
                    then (if start_time s1 = 0
                          then s1\<lparr>start_time := now, last_time := now,
                                  total_elapsed_s := 0, consumed_mAh := 0,
                                  records := [], table := []\<rparr>
                          else s1\<lparr>last_time := now\<rparr>)
                    else s1)
          in (s2\<lparr>inputs_enabled := False, start_btn_enabled := False,
                  pause_btn_enabled := True, running := True,
                  timer_active := True,
                  timer_interval_ms := py_int (sampling_interval_s s2 * 1000)\<rparr>,
              None))"

definition on_pause :: "sim_window \<Rightarrow> sim_window" where
  "on_pause s =
     (if \<not> running s then s
      else s\<lparr>running := False, timer_active := False, start_btn_enabled := True,
             pause_btn_enabled := False, inputs_enabled := True\<rparr>)"

definition on_reset :: "sim_window \<Rightarrow> sim_window" where
  "on_reset s =
     s\<lparr>running := False, timer_active := False, start_time := 0, last_time := 0,
       total_elapsed_s := 0, consumed_mAh := 0, records := [], table := [],
       status_labels := None, start_btn_enabled := True, pause_btn_enabled := False,
       inputs_enabled := True, status_message := []\<rparr>"

definition append_row :: "sim_window \<Rightarrow> real \<Rightarrow> real \<Rightarrow> real \<Rightarrow> real \<Rightarrow> real \<Rightarrow> sim_window" where
  "append_row s t i used rem eta =
     s\<lparr>table := table s @ [\<lparr>row_t = t, row_i = i, row_used = used, row_rem = rem,
                              row_eta = eta\<rparr>]\<rparr>"

text \<open>
  \<open>_on_tick\<close>, at the time \<open>now\<close> and with \<open>u\<close> the value of \<open>random()\<close> that the
  draw of the current would use. The division by \<open>current_A\<close> stands under the test
  \<open>current_A > 0.1\<close>, so it cannot raise.
\<close>

definition on_tick :: "real \<Rightarrow> real \<Rightarrow> sim_window \<Rightarrow> sim_window" where
  "on_tick now u s =
     (let elapsed_s = now - last_time s;
          s1 = s\<lparr>total_elapsed_s := now - start_time s\<rparr>
      in if total_elapsed_s s1 \<ge> sim_duration_s s1
         then on_pause (s1\<lparr>status_message := ''Reached simulation duration.''\<rparr>)
         else if elapsed_s + 1 / 10 ^ 9 < sampling_interval_s s1 then s1
         else
           let current_A = uniform (i_min s1) (i_max s1) u;
               elapsed_h = elapsed_s / 3600;
               used_mAh = current_A * elapsed_h * 1000;
               s2 = s1\<lparr>consumed_mAh := consumed_mAh s1 + used_mAh\<rparr>;
               remaining_mAh = max (effective_capacity_mAh s2 - consumed_mAh s2) 0;
               flight_time_left_min =
                 (if current_A > 0.1 then (remaining_mAh / 1000) / current_A * 60
                  else 9999);
               s3 = append_row s2 (total_elapsed_s s2) current_A (consumed_mAh s2)
                      remaining_mAh flight_time_left_min;
               s4 = s3\<lparr>status_labels :=
                          Some \<lparr>row_t = total_elapsed_s s3, row_i = current_A,
                                row_used = consumed_mAh s3, row_rem = remaining_mAh,
                                row_eta = flight_time_left_min\<rparr>\<rparr>
           in if remaining_mAh \<le> 0
              then on_pause (s4\<lparr>status_message := ''Battery effectively depleted.''\<rparr>)
              else s4\<lparr>last_time := now\<rparr>)"

text \<open>
  A run of the timer: the ticks at the given times, each with its draw. The timer calls
  \<open>_on_tick\<close> only while it is active, so a tick after a stop changes nothing.
\<close>

fun run_ticks :: "(real \<times> real) list \<Rightarrow> sim_window \<Rightarrow> sim_window" where
  "run_ticks [] s = s"
| "run_ticks ((now, u) # ticks) s =
     run_ticks ticks (if timer_active s then on_tick now u s else s)"




section \<open>Theorems\<close>

subsection \<open>Recommended battery voltage\<close>

text \<open>
  Claim C9. The recommended battery voltage is determined by the wingspan bands:
  11.1 below 100 cm, 14.8 from 100 up to (not including) 140, 22.2 from 140 up to 175,
  29.6 from 175 up to 215, 37.0 from 215 up to 245, and 44.4 from 245 on. It holds
  for every wingspan, the non-negative ones in particular, and a wingspan of 120 cm
  gives 14.8.
\<close>

theorem battery_voltage_bands:
  fixes cm :: real
  assumes "0 \<le> cm"
  shows "(cm < 100 \<longrightarrow> battery_voltage_from_wingspan_cm cm = 11.1)
       \<and> (100 \<le> cm \<and> cm < 140 \<longrightarrow> battery_voltage_from_wingspan_cm cm = 14.8)
       \<and> (140 \<le> cm \<and> cm < 175 \<longrightarrow> battery_voltage_from_wingspan_cm cm = 22.2)
       \<and> (175 \<le> cm \<and> cm < 215 \<longrightarrow> battery_voltage_from_wingspan_cm cm = 29.6)
       \<and> (215 \<le> cm \<and> cm < 245 \<longrightarrow> battery_voltage_from_wingspan_cm cm = 37.0)
       \<and> (245 \<le> cm \<longrightarrow> battery_voltage_from_wingspan_cm cm = 44.4)
       \<and> battery_voltage_from_wingspan_cm 120 = 14.8"
  by (simp add: battery_voltage_from_wingspan_cm_def)

theorem battery_voltage_bands_witness:
  "(0::real) \<le> 120 \<and> battery_voltage_from_wingspan_cm 120 = 14.8
     \<and> battery_voltage_from_wingspan_cm 99 = 11.1
     \<and> battery_voltage_from_wingspan_cm 245 = 44.4"
  using battery_voltage_bands [of 120] battery_voltage_bands [of 99]
    battery_voltage_bands [of 245]
  by simp

subsection \<open>Flight time\<close>

lemma calculate_flight_time_value:
  "calculate_flight_time capacity_mAh avg_current_A use_80_percent =
     Inr (capacity_mAh / 1000 * (if use_80_percent then 0.8 else 1)
            / max avg_current_A (1 / 10 ^ 9) * 60)"
proof -
  have "max avg_current_A (1 / 10 ^ 9) \<noteq> 0"
    by (simp add: max_def)
  then show ?thesis
    by (simp add: calculate_flight_time_def py_div_def Let_def)
qed






text \<open>
  Claim C1, as amended. The claim has \<open>flightTimeMinutes\<close> fail at a current of zero
  or below. The function of the source, \<open>calculate_flight_time\<close>, returns there: it
  divides by \<open>1e-9\<close> instead. The rejection is made one level up, by the calculate
  action of the window, which reports an error and writes no result when the current
  entered is zero (or negative, or when the capacity entered is rejected first).
\<close>

theorem flight_time_nonpositive_current:
  assumes "avg_current_A \<le> 0"
  shows "calculate_flight_time capacity_mAh avg_current_A u
           = Inr (capacity_mAh / 1000 * (if u then 0.8 else 1) / (1 / 10 ^ 9) * 60)
       \<and> (\<exists>msg. on_calculate capacity_edit (Number avg_current_A) u = Inl (ValueError msg))
       \<and> on_calculate (Number capacity_mAh) (Number avg_current_A) u
           = Inl (ValueError
                   (if capacity_mAh < 0 then ''Capacity (mAh) must be non-negative.''
                    else if avg_current_A < 0 then ''Avg current (A) must be non-negative.''
                    else ''Avg current (A) must be > 0.''))"
proof (intro conjI)
  have "max avg_current_A (1 / 10 ^ 9) = 1 / 10 ^ 9"
    using assms by (simp add: max_def)
  then show "calculate_flight_time capacity_mAh avg_current_A u
           = Inr (capacity_mAh / 1000 * (if u then 0.8 else 1) / (1 / 10 ^ 9) * 60)"
    by (simp only: calculate_flight_time_value)
  show "\<exists>msg. on_calculate capacity_edit (Number avg_current_A) u = Inl (ValueError msg)"
    using assms by (cases capacity_edit) (auto simp: on_calculate_def f_field_def)
  show "on_calculate (Number capacity_mAh) (Number avg_current_A) u
           = Inl (ValueError
                   (if capacity_mAh < 0 then ''Capacity (mAh) must be non-negative.''
                    else if avg_current_A < 0 then ''Avg current (A) must be non-negative.''
                    else ''Avg current (A) must be > 0.''))"
    using assms by (auto simp: on_calculate_def f_field_def)
qed

theorem flight_time_nonpositive_current_witness:
  "(0::real) \<le> 0
   \<and> calculate_flight_time 1500 0 True = Inr 72000000000
   \<and> on_calculate (Number 1500) (Number 0) True
        = Inl (ValueError ''Avg current (A) must be > 0.'')"
  using flight_time_nonpositive_current [of 0 1500 True "Number 1500"]
  by simp

theorem flight_time_zero_current_returns:
  "calculate_flight_time 1500 0 True = Inr 72000000000
   \<and> calculate_flight_time 1500 0 True \<noteq> Inl ZeroDivisionError"
  by (simp add: calculate_flight_time_def py_div_def)

subsection \<open>The motor and ESC table\<close>






subsection \<open>The simulator: one tick\<close>


lemma on_pause_fields [simp]:
  "consumed_mAh (on_pause s) = consumed_mAh s"
  "table (on_pause s) = table s"
  "last_time (on_pause s) = last_time s"
  "start_time (on_pause s) = start_time s"
  "i_min (on_pause s) = i_min s"
  "i_max (on_pause s) = i_max s"
  "effective_capacity_mAh (on_pause s) = effective_capacity_mAh s"
  "sampling_interval_s (on_pause s) = sampling_interval_s s"
  "sim_duration_s (on_pause s) = sim_duration_s s"
  "total_elapsed_s (on_pause s) = total_elapsed_s s"
  "status_message (on_pause s) = status_message s"
  "\<not> running (on_pause s)"
  by (simp_all add: on_pause_def)

lemma on_tick_duration:
  assumes "sim_duration_s s \<le> now - start_time s"
  shows "on_tick now u s =
           on_pause (s\<lparr>total_elapsed_s := now - start_time s,
                       status_message := ''Reached simulation duration.''\<rparr>)"
  using assms by (simp add: on_tick_def Let_def)


lemma on_tick_sample:
  assumes "now - start_time s < sim_duration_s s"
    and "sampling_interval_s s \<le> now - last_time s + 1 / 10 ^ 9"
  shows "table (on_tick now u s) =
           table s @
           [\<lparr>row_t = now - start_time s,
             row_i = uniform (i_min s) (i_max s) u,
             row_used = consumed_mAh s
                          + uniform (i_min s) (i_max s) u * ((now - last_time s) / 3600) * 1000,
             row_rem = max (effective_capacity_mAh s
                             - (consumed_mAh s
                                + uniform (i_min s) (i_max s) u * ((now - last_time s) / 3600) * 1000)) 0,
             row_eta = (if uniform (i_min s) (i_max s) u > 0.1
                        then max (effective_capacity_mAh s
                             - (consumed_mAh s
                                + uniform (i_min s) (i_max s) u * ((now - last_time s) / 3600) * 1000)) 0
                             / 1000 / uniform (i_min s) (i_max s) u * 60
                        else 9999)\<rparr>]"
    and "consumed_mAh (on_tick now u s) =
           consumed_mAh s + uniform (i_min s) (i_max s) u * ((now - last_time s) / 3600) * 1000"
  using assms by (simp_all add: on_tick_def Let_def append_row_def)

lemma on_tick_frame [simp]:
  "i_min (on_tick now u s) = i_min s"
  "i_max (on_tick now u s) = i_max s"
  "effective_capacity_mAh (on_tick now u s) = effective_capacity_mAh s"
  "start_time (on_tick now u s) = start_time s"
  "sampling_interval_s (on_tick now u s) = sampling_interval_s s"
  "sim_duration_s (on_tick now u s) = sim_duration_s s"
  by (simp_all add: on_tick_def Let_def append_row_def)







lemma run_ticks_frame [simp]:
  "effective_capacity_mAh (run_ticks ticks s) = effective_capacity_mAh s"
  by (induction ticks arbitrary: s) auto






text \<open>
  Claim C2. In a running simulation, a tick whose updated \<open>total_elapsed_s\<close> reaches
  or exceeds \<open>sim_duration_s\<close> appends no row to the table and leaves
  \<open>consumed_mAh\<close> as it was; the simulator is paused (\<open>running\<close> false, the timer
  stopped) and the status bar shows that the duration is reached. The window after the
  tick does not depend on the draw \<open>u\<close>: the test stands before the draw of the
  current, and the tick is dropped whole.
\<close>

theorem tick_at_duration_stops:
  assumes "running s" and "sim_duration_s s \<le> now - start_time s"
  shows "on_tick now u s
           = s\<lparr>total_elapsed_s := now - start_time s,
                status_message := ''Reached simulation duration.'',
                running := False, timer_active := False, start_btn_enabled := True,
                pause_btn_enabled := False, inputs_enabled := True\<rparr>
       \<and> table (on_tick now u s) = table s
       \<and> consumed_mAh (on_tick now u s) = consumed_mAh s
       \<and> \<not> running (on_tick now u s)
       \<and> \<not> timer_active (on_tick now u s)
       \<and> status_message (on_tick now u s) = ''Reached simulation duration.''
       \<and> total_elapsed_s (on_tick now u s) = now - start_time s"
  using assms by (simp add: on_tick_duration on_pause_def)

theorem tick_at_duration_stops_witness:
  "running (fst (on_start
       \<lparr>capacity_mAh_edit = Number 1500, sampling_s_edit = Number (1 / 10),
         duration_s_edit = Number 120, i_min_a_edit = Number 2,
         i_max_a_edit = Number 10, use_80_box = True\<rparr> 100 init_window))
   \<and> on_tick 220 (1 / 4) (fst (on_start
       \<lparr>capacity_mAh_edit = Number 1500, sampling_s_edit = Number (1 / 10),
         duration_s_edit = Number 120, i_min_a_edit = Number 2,
         i_max_a_edit = Number 10, use_80_box = True\<rparr> 100 init_window))
      = \<lparr>running = False, timer_active = False, timer_interval_ms = 100,
          start_time = 100, last_time = 100, total_elapsed_s = 120,
          consumed_mAh = 0, effective_capacity_mAh = 1200,
          sampling_interval_s = 1 / 10, sim_duration_s = 120, i_min = 2,
          i_max = 10, records = [], table = [],
          status_message = ''Reached simulation duration.'',
          status_labels = None, start_btn_enabled = True,
          pause_btn_enabled = False, inputs_enabled = True\<rparr>"
proof -
  let ?s = "fst (on_start
       \<lparr>capacity_mAh_edit = Number 1500, sampling_s_edit = Number (1 / 10),
         duration_s_edit = Number 120, i_min_a_edit = Number 2,
         i_max_a_edit = Number 10, use_80_box = True\<rparr> 100 init_window)"
  have s: "?s = \<lparr>running = True, timer_active = True, timer_interval_ms = 100,
     start_time = 100, last_time = 100, total_elapsed_s = 0,
     consumed_mAh = 0, effective_capacity_mAh = 1200,
     sampling_interval_s = 1 / 10, sim_duration_s = 120, i_min = 2,
     i_max = 10, records = [], table = [], status_message = [],
     status_labels = None, start_btn_enabled = False,
     pause_btn_enabled = True, inputs_enabled = False\<rparr>"
    by (simp add: on_start_def read_form_def f_field_def init_window_def Let_def py_int_def)
  have h: "running ?s" "sim_duration_s ?s \<le> 220 - start_time ?s"
    by (simp_all add: s)
  from tick_at_duration_stops [OF h, of "1 / 4"] h(1) show ?thesis
    by (simp add: s)
qed

text \<open>
  Claim C7. A tick that produces a sample (the duration is not reached and the sampling
  interval has passed) appends one row; its estimate is
  \<open>(remaining_mAh / 1000 / current_A) * 60\<close> when the current drawn is above 0.1 A,
  and the sentinel 9999, which the table shows as \<open>--\<close>, when the current is 0.1 A or
  below, whatever capacity remains. A current of 0.05 A gives the sentinel.
\<close>

theorem tick_eta:
  fixes now u :: real and s :: sim_window
  assumes "now - start_time s < sim_duration_s s"
    and "sampling_interval_s s \<le> now - last_time s + 1 / 10 ^ 9"
  defines "current_A \<equiv> uniform (i_min s) (i_max s) u"
  defines "r \<equiv> last (table (on_tick now u s))"
  shows "table (on_tick now u s) = table s @ [r]
       \<and> row_i r = current_A
       \<and> row_rem r = max (effective_capacity_mAh s - consumed_mAh (on_tick now u s)) 0
       \<and> row_eta r = (if current_A > 0.1 then row_rem r / 1000 / current_A * 60 else 9999)
       \<and> (current_A \<le> 0.1 \<longrightarrow> row_eta r = 9999 \<and> eta_cell (row_eta r) = Dashes)"
  unfolding r_def current_A_def
  by (simp add: on_tick_sample [OF assms(1,2)] eta_cell_def)

theorem tick_eta_witness:
  "row_i (last (table (on_tick (1001 / 10) (1 / 2) (fst (on_start
       \<lparr>capacity_mAh_edit = Number 1500, sampling_s_edit = Number (1 / 10),
         duration_s_edit = Number 120, i_min_a_edit = Number (1 / 20),
         i_max_a_edit = Number (1 / 20), use_80_box = True\<rparr> 100 init_window))))) = 0.05
   \<and> row_eta (last (table (on_tick (1001 / 10) (1 / 2) (fst (on_start
       \<lparr>capacity_mAh_edit = Number 1500, sampling_s_edit = Number (1 / 10),
         duration_s_edit = Number 120, i_min_a_edit = Number (1 / 20),
         i_max_a_edit = Number (1 / 20), use_80_box = True\<rparr> 100 init_window))))) = 9999
   \<and> eta_cell 9999 = Dashes"
proof -
  let ?s = "fst (on_start
       \<lparr>capacity_mAh_edit = Number 1500, sampling_s_edit = Number (1 / 10),
         duration_s_edit = Number 120, i_min_a_edit = Number (1 / 20),
         i_max_a_edit = Number (1 / 20), use_80_box = True\<rparr> 100 init_window)"
  have s: "?s = \<lparr>running = True, timer_active = True, timer_interval_ms = 100,
     start_time = 100, last_time = 100, total_elapsed_s = 0,
     consumed_mAh = 0, effective_capacity_mAh = 1200,
     sampling_interval_s = 1 / 10, sim_duration_s = 120, i_min = 1 / 20,
     i_max = 1 / 20, records = [], table = [], status_message = [],
     status_labels = None, start_btn_enabled = False,
     pause_btn_enabled = True, inputs_enabled = False\<rparr>"
    by (simp add: on_start_def read_form_def f_field_def init_window_def Let_def py_int_def)
  have h: "1001 / 10 - start_time ?s < sim_duration_s ?s"
    "sampling_interval_s ?s \<le> 1001 / 10 - last_time ?s + 1 / 10 ^ 9"
    by (simp_all add: s)
  have c: "uniform (i_min ?s) (i_max ?s) (1 / 2) = 1 / 20"
    by (simp add: s uniform_def)
  from tick_eta [OF h, of "1 / 2"] show ?thesis
    by (simp add: c eta_cell_def)
qed

subsection \<open>The simulator: start and reset\<close>

text \<open>
  Claim C5. When the maximum current entered is below the minimum current entered,
  \<open>_on_start\<close> reports a \<open>ValueError\<close> and returns the window unchanged: the
  simulation is not started (\<open>running\<close> and the timer are as they were) and the
  elapsed time, the consumption, the table and the effective capacity keep their
  values. When the other fields are valid the error is the one of the range test.
\<close>

theorem start_rejects_reversed_range:
  assumes "i_min_a_edit form = Number imin" and "i_max_a_edit form = Number imax"
    and "imax < imin"
  shows "(\<exists>msg. on_start form now s = (s, Some (ValueError msg)))
       \<and> fst (on_start form now s) = s
       \<and> running (fst (on_start form now s)) = running s
       \<and> timer_active (fst (on_start form now s)) = timer_active s
       \<and> (capacity_mAh_edit form = Number cap \<and> 0 \<le> cap
           \<and> sampling_s_edit form = Number samp \<and> 0 \<le> samp
           \<and> duration_s_edit form = Number dur \<and> 0 \<le> dur \<and> 0 \<le> imax
           \<longrightarrow> on_start form now s
                 = (s, Some (ValueError ''Current max (A) must be >= Current min (A).'')))"
proof -
  have "\<exists>msg. read_form form = Inl (ValueError msg)"
    using assms
    by (cases "capacity_mAh_edit form"; cases "sampling_s_edit form";
        cases "duration_s_edit form")
       (simp_all add: read_form_def f_field_def)
  then obtain msg where m: "read_form form = Inl (ValueError msg)" ..
  then have a: "on_start form now s = (s, Some (ValueError msg))"
    by (simp add: on_start_def)
  have b: "on_start form now s
             = (s, Some (ValueError ''Current max (A) must be >= Current min (A).''))"
    if "capacity_mAh_edit form = Number cap" "0 \<le> cap"
      "sampling_s_edit form = Number samp" "0 \<le> samp"
      "duration_s_edit form = Number dur" "0 \<le> dur" "0 \<le> imax"
    using that assms by (simp add: on_start_def read_form_def f_field_def)
  show ?thesis
    using a b by auto
qed

theorem start_rejects_reversed_range_witness:
  "on_start \<lparr>capacity_mAh_edit = Number 1500, sampling_s_edit = Number (1 / 10),
              duration_s_edit = Number 120, i_min_a_edit = Number 10,
              i_max_a_edit = Number 2, use_80_box = True\<rparr> 100 init_window
     = (init_window, Some (ValueError ''Current max (A) must be >= Current min (A).''))
   \<and> \<not> running init_window \<and> \<not> timer_active init_window"
proof -
  let ?form = "\<lparr>capacity_mAh_edit = Number 1500, sampling_s_edit = Number (1 / 10),
              duration_s_edit = Number 120, i_min_a_edit = Number 10,
              i_max_a_edit = Number 2, use_80_box = True\<rparr>"
  have h: "i_min_a_edit ?form = Number 10" "i_max_a_edit ?form = Number 2" "(2::real) < 10"
    by simp_all
  from start_rejects_reversed_range [OF h, where cap = 1500 and samp = "1 / 10"
      and dur = 120 and now = 100 and s = init_window]
  have "on_start ?form 100 init_window
                   = (init_window,
                      Some (ValueError ''Current max (A) must be >= Current min (A).''))"
    by simp
  then show ?thesis
    by (simp add: init_window_def)
qed

text \<open>
  Claim C6. \<open>_on_reset\<close> is idempotent: a second reset changes nothing of the window
  that the first one left. From any window, a reset leaves the simulator stopped, with
  the elapsed time and the consumption at zero and the table empty.
\<close>

theorem reset_idempotent:
  "on_reset (on_reset s) = on_reset s
   \<and> \<not> running (on_reset s) \<and> \<not> timer_active (on_reset s)
   \<and> total_elapsed_s (on_reset s) = 0 \<and> consumed_mAh (on_reset s) = 0
   \<and> table (on_reset s) = [] \<and> records (on_reset s) = []
   \<and> start_time (on_reset s) = 0 \<and> last_time (on_reset s) = 0"
  by (simp add: on_reset_def)

subsection \<open>The simulator: a run\<close>





end
